theory Spec2Isabelle
  imports Complex_Main
begin

section \<open>The completion relay server (packages/server/index.ts)\<close>

subsection \<open>JavaScript values that may be missing\<close>

text \<open>
  A property read in JavaScript gives a value, \<open>undefined\<close> or \<open>null\<close>. The three
  operators the chunk expression uses are modelled on such values:
  \<^item> \<open>xs[0]\<close> is \<open>undefined\<close> on an empty array;
  \<^item> \<open>x?.f\<close> is \<open>undefined\<close> when \<open>x\<close> is \<open>undefined\<close> or \<open>null\<close>, and \<open>x.f\<close> otherwise;
  \<^item> \<open>s || ""\<close> is \<open>""\<close> when \<open>s\<close> is falsy (\<open>undefined\<close>, \<open>null\<close> or the empty string).
\<close>

datatype 'a js = Undefined | Null | Val 'a

definition at0 :: "'a list \<Rightarrow> 'a js" where
  "at0 xs = (case xs of [] \<Rightarrow> Undefined | x # _ \<Rightarrow> Val x)"

definition chain :: "'a js \<Rightarrow> ('a \<Rightarrow> 'b js) \<Rightarrow> 'b js" where
  "chain x f = (case x of Undefined \<Rightarrow> Undefined | Null \<Rightarrow> Undefined | Val v \<Rightarrow> f v)"

definition or_empty :: "string js \<Rightarrow> string" where
  "or_empty s = (case s of Undefined \<Rightarrow> [] | Null \<Rightarrow> [] | Val t \<Rightarrow> (if t = [] then [] else t))"

subsection \<open>Completion parameters and the upstream request\<close>

type_synonym number = real

datatype stop_sequences = StopString string | StopArray "string list"

text \<open>
  \<open>interface CompletionParams\<close>: every field is optional. A field that is left out and a
  field set to \<open>undefined\<close> are both \<open>None\<close>: neither puts a value in the request body.
\<close>

record completion_params =
  top_p :: "number option"
  max_tokens :: "number option"
  stop :: "stop_sequences option"
  temperature :: "number option"

definition DEFAULT_PARAMS :: completion_params where
  "DEFAULT_PARAMS =
     \<lparr>top_p = Some 1, max_tokens = Some 512, stop = Some (StopString [CHR 0x0A]),
      temperature = Some 0.7\<rparr>"

record message =
  role :: string
  content :: string

text \<open>
  The argument of \<open>chat.completions.create\<close>: the object literal
  \<open>{model, messages: [...], stream: true, ...params}\<close>. The spread of \<open>params\<close> gives the
  request the four parameter fields exactly as \<open>params\<close> has them.
\<close>

record request = completion_params +
  model :: string
  messages :: "message list"
  stream :: bool

subsection \<open>The upstream chunk stream\<close>

datatype delta = Delta (delta_content: "string js")

datatype choice = Choice (delta: "delta js")

datatype chunk = Chunk (choices: "choice list")

text \<open>
  What the provider delivers after the chunks: the stream ends, it throws, or it never
  delivers anything more. The call of \<open>create\<close> itself either rejects with an error
  (\<open>Inl\<close>) or resolves to a stream (\<open>Inr\<close>): the chunks and how they end.
\<close>

datatype 'e ending = Ended | Errored 'e | Stalled

type_synonym 'e response = "'e + (chunk list \<times> 'e ending)"

text \<open>
  How a run of a generator, driven by a consumer as far as it goes, finishes: the
  generator returns, it throws, or it stays suspended at an \<open>await\<close>.
\<close>

datatype 'e outcome = Returned | Threw 'e | Suspended

record 'e run =
  sent :: request
  yielded :: "string list"
  outcome :: "'e outcome"

subsection \<open>createDeepSeekCompletion\<close>

definition createDeepSeekCompletion_request ::
  "string \<Rightarrow> message list \<Rightarrow> completion_params option \<Rightarrow> string option \<Rightarrow> request" where
  "createDeepSeekCompletion_request systemPrompt msgs params mdl =
     (let params = (case params of None \<Rightarrow> DEFAULT_PARAMS | Some p \<Rightarrow> p);
          mdl = (case mdl of None \<Rightarrow> ''deepseek-chat'' | Some m \<Rightarrow> m)
      in \<lparr>top_p = top_p params, max_tokens = max_tokens params, stop = stop params,
          temperature = temperature params,
          model = mdl,
          messages = \<lparr>role = ''system'', content = systemPrompt\<rparr> # msgs,
          stream = True\<rparr>)"

text \<open>The loop \<open>for await (const chunk of stream) yield chunk.choices[0]?.delta?.content || ""\<close>.\<close>

fun createDeepSeekCompletion_loop :: "chunk list \<Rightarrow> 'e ending \<Rightarrow> string list \<times> 'e outcome" where
  "createDeepSeekCompletion_loop [] fin =
     ([], case fin of Ended \<Rightarrow> Returned | Errored e \<Rightarrow> Threw e | Stalled \<Rightarrow> Suspended)"
| "createDeepSeekCompletion_loop (chunk # rest) fin =
     (case createDeepSeekCompletion_loop rest fin of
        (ys, out) \<Rightarrow> (or_empty (chain (chain (at0 (choices chunk)) delta) delta_content) # ys, out))"

text \<open>
  The generator, with the \<open>create\<close> method of \<open>deepseekClient\<close> as a parameter (the
  client's key and endpoint matter to the network only). A rejected \<open>create\<close> is thrown
  out of the generator by the \<open>await\<close>, before anything is yielded.
\<close>

definition createDeepSeekCompletion ::
  "(request \<Rightarrow> 'e response) \<Rightarrow> string \<Rightarrow> message list \<Rightarrow> completion_params option
     \<Rightarrow> string option \<Rightarrow> 'e run" where
  "createDeepSeekCompletion deepseekClient systemPrompt msgs params mdl =
     (let req = createDeepSeekCompletion_request systemPrompt msgs params mdl
      in case deepseekClient req of
           Inl e \<Rightarrow> \<lparr>sent = req, yielded = [], outcome = Threw e\<rparr>
         | Inr (chunks, fin) \<Rightarrow>
             (case createDeepSeekCompletion_loop chunks fin of
                (ys, out) \<Rightarrow> \<lparr>sent = req, yielded = ys, outcome = out\<rparr>))"

subsection \<open>createDeepInfraCompletion\<close>

definition createDeepInfraCompletion_request ::
  "string \<Rightarrow> message list \<Rightarrow> completion_params option \<Rightarrow> string option \<Rightarrow> request" where
  "createDeepInfraCompletion_request systemPrompt msgs params mdl =
     (let params = (case params of None \<Rightarrow> DEFAULT_PARAMS | Some p \<Rightarrow> p);
          mdl = (case mdl of None \<Rightarrow> ''google/gemma-2-9b-it'' | Some m \<Rightarrow> m)
      in \<lparr>top_p = top_p params, max_tokens = max_tokens params, stop = stop params,
          temperature = temperature params,
          model = mdl,
          messages = \<lparr>role = ''system'', content = systemPrompt\<rparr> # msgs,
          stream = True\<rparr>)"

fun createDeepInfraCompletion_loop :: "chunk list \<Rightarrow> 'e ending \<Rightarrow> string list \<times> 'e outcome" where
  "createDeepInfraCompletion_loop [] fin =
     ([], case fin of Ended \<Rightarrow> Returned | Errored e \<Rightarrow> Threw e | Stalled \<Rightarrow> Suspended)"
| "createDeepInfraCompletion_loop (chunk # rest) fin =
     (case createDeepInfraCompletion_loop rest fin of
        (ys, out) \<Rightarrow> (or_empty (chain (chain (at0 (choices chunk)) delta) delta_content) # ys, out))"

definition createDeepInfraCompletion ::
  "(request \<Rightarrow> 'e response) \<Rightarrow> string \<Rightarrow> message list \<Rightarrow> completion_params option
     \<Rightarrow> string option \<Rightarrow> 'e run" where
  "createDeepInfraCompletion deepinfraClient systemPrompt msgs params mdl =
     (let req = createDeepInfraCompletion_request systemPrompt msgs params mdl
      in case deepinfraClient req of
           Inl e \<Rightarrow> \<lparr>sent = req, yielded = [], outcome = Threw e\<rparr>
         | Inr (chunks, fin) \<Rightarrow>
             (case createDeepInfraCompletion_loop chunks fin of
                (ys, out) \<Rightarrow> \<lparr>sent = req, yielded = ys, outcome = out\<rparr>))"

subsection \<open>The connection handler\<close>

text \<open>
  An event arriving on a socket has a name and an argument; for \<open>hello\<close> the client also
  supplies the acknowledgement callback, as \<open>ClientToServerEvents\<close> declares. What the
  handler does is a list of actions: a line on the console, or a call of the callback,
  which is what the client receives.
\<close>

datatype inbound = Inbound (event_name: string) (event_arg: string)

datatype effect = ConsoleLog string | ConsoleError string string | Callback string

text \<open>The three listeners registered on the socket; an event of any other name has none.\<close>

fun listeners :: "string \<Rightarrow> inbound \<Rightarrow> effect list" where
  "listeners socket_id (Inbound name arg) =
     (if name = ''hello'' then [Callback (''hello '' @ arg)]
      else if name = ''disconnect'' then
        [ConsoleLog (''Client disconnected [id: '' @ socket_id @ ''], reason: '' @ arg)]
      else if name = ''error'' then
        [ConsoleError (''socket error [id: '' @ socket_id @ '']:'') arg]
      else [])"

fun deliver :: "string \<Rightarrow> inbound list \<Rightarrow> effect list" where
  "deliver socket_id [] = []"
| "deliver socket_id (ev # evs) = listeners socket_id ev @ deliver socket_id evs"

definition on_connection :: "string \<Rightarrow> inbound list \<Rightarrow> effect list" where
  "on_connection socket_id evs =
     ConsoleLog (''Client connected [id: '' @ socket_id @ '']'') # deliver socket_id evs"

text \<open>What reaches the client: the responses passed to the callbacks, in order.\<close>

fun to_client :: "effect list \<Rightarrow> string list" where
  "to_client [] = []"
| "to_client (Callback response # effs) = response # to_client effs"
| "to_client (_ # effs) = to_client effs"

subsection \<open>The parameter resolver as the specification words it\<close>

text \<open>
  Section 4.2 of the specification: for each of the four fields, the caller's value if
  present and not undefined, else the default.
\<close>

definition spec_resolve :: "completion_params option \<Rightarrow> completion_params \<Rightarrow> completion_params" where
  "spec_resolve caller dflt =
     (case caller of
        None \<Rightarrow> dflt
      | Some p \<Rightarrow>
          \<lparr>top_p = (case top_p p of Some v \<Rightarrow> Some v | None \<Rightarrow> top_p dflt),
           max_tokens = (case max_tokens p of Some v \<Rightarrow> Some v | None \<Rightarrow> max_tokens dflt),
           stop = (case stop p of Some v \<Rightarrow> Some v | None \<Rightarrow> stop dflt),
           temperature = (case temperature p of Some v \<Rightarrow> Some v | None \<Rightarrow> temperature dflt)\<rparr>)"

text \<open>The value of \<open>chunk.choices[0]?.delta?.content\<close>, for stating properties of the loops.\<close>

definition chunk_content :: "chunk \<Rightarrow> string js" where
  "chunk_content c = chain (chain (at0 (choices c)) delta) delta_content"

text \<open>A chunk whose first choice carries the given delta content.\<close>

definition chunk_with :: "string js \<Rightarrow> chunk" where
  "chunk_with c = Chunk [Choice (Val (Delta c))]"

text \<open>A provider that answers every request with the same response.\<close>

definition stub_provider :: "'e response \<Rightarrow> request \<Rightarrow> 'e response" where
  "stub_provider r req = r"

text \<open>
  The errors as the specification names them, for comparing with what the adapters
  throw: the three causes of section 4.1 for which the transport cannot establish the
  stream, and the four classifications of section 7. A thrown value is either the
  transport's own failure or a classification.
\<close>

datatype transport_failure = AuthenticationFailure | ConnectionRefused | NonSuccessResponse nat

datatype classification = ProviderUnavailable | StreamInterrupted | SessionBusy | MalformedChunk

datatype thrown = Raw transport_failure | Classified classification

section \<open>Properties\<close>

subsection \<open>What the loops and the generators compute\<close>

lemma deepseek_loop_yields:
  "fst (createDeepSeekCompletion_loop cs fin) = map (\<lambda>c. or_empty (chunk_content c)) cs"
  by (induction cs) (simp_all add: chunk_content_def case_prod_beta)

lemma deepseek_loop_outcome:
  "snd (createDeepSeekCompletion_loop cs fin) =
     (case fin of Ended \<Rightarrow> Returned | Errored e \<Rightarrow> Threw e | Stalled \<Rightarrow> Suspended)"
  by (induction cs) (simp_all add: case_prod_beta)

lemma deepinfra_loop_yields:
  "fst (createDeepInfraCompletion_loop cs fin) = map (\<lambda>c. or_empty (chunk_content c)) cs"
  by (induction cs) (simp_all add: chunk_content_def case_prod_beta)

lemma deepinfra_loop_outcome:
  "snd (createDeepInfraCompletion_loop cs fin) =
     (case fin of Ended \<Rightarrow> Returned | Errored e \<Rightarrow> Threw e | Stalled \<Rightarrow> Suspended)"
  by (induction cs) (simp_all add: case_prod_beta)

lemma deepseek_sent:
  "sent (createDeepSeekCompletion client sp ms p m) = createDeepSeekCompletion_request sp ms p m"
  by (simp add: createDeepSeekCompletion_def Let_def split: sum.splits prod.splits)

lemma deepinfra_sent:
  "sent (createDeepInfraCompletion client sp ms p m) = createDeepInfraCompletion_request sp ms p m"
  by (simp add: createDeepInfraCompletion_def Let_def split: sum.splits prod.splits)

lemma deepseek_resolved:
  "client (createDeepSeekCompletion_request sp ms p m) = Inr (cs, fin) \<Longrightarrow>
   createDeepSeekCompletion client sp ms p m =
     \<lparr>sent = createDeepSeekCompletion_request sp ms p m,
      yielded = fst (createDeepSeekCompletion_loop cs fin),
      outcome = snd (createDeepSeekCompletion_loop cs fin)\<rparr>"
  by (simp add: createDeepSeekCompletion_def Let_def split: prod.splits)

lemma deepinfra_resolved:
  "client (createDeepInfraCompletion_request sp ms p m) = Inr (cs, fin) \<Longrightarrow>
   createDeepInfraCompletion client sp ms p m =
     \<lparr>sent = createDeepInfraCompletion_request sp ms p m,
      yielded = fst (createDeepInfraCompletion_loop cs fin),
      outcome = snd (createDeepInfraCompletion_loop cs fin)\<rparr>"
  by (simp add: createDeepInfraCompletion_def Let_def split: prod.splits)

lemma deepseek_rejected:
  "client (createDeepSeekCompletion_request sp ms p m) = Inl e \<Longrightarrow>
   createDeepSeekCompletion client sp ms p m =
     \<lparr>sent = createDeepSeekCompletion_request sp ms p m, yielded = [], outcome = Threw e\<rparr>"
  by (simp add: createDeepSeekCompletion_def Let_def)

lemma deepinfra_rejected:
  "client (createDeepInfraCompletion_request sp ms p m) = Inl e \<Longrightarrow>
   createDeepInfraCompletion client sp ms p m =
     \<lparr>sent = createDeepInfraCompletion_request sp ms p m, yielded = [], outcome = Threw e\<rparr>"
  by (simp add: createDeepInfraCompletion_def Let_def)

lemma deepseek_yielded:
  "client (createDeepSeekCompletion_request sp ms p m) = Inr (cs, fin) \<Longrightarrow>
   yielded (createDeepSeekCompletion client sp ms p m) = map (\<lambda>c. or_empty (chunk_content c)) cs"
  by (simp add: deepseek_resolved deepseek_loop_yields)

lemma deepinfra_yielded:
  "client (createDeepInfraCompletion_request sp ms p m) = Inr (cs, fin) \<Longrightarrow>
   yielded (createDeepInfraCompletion client sp ms p m) = map (\<lambda>c. or_empty (chunk_content c)) cs"
  by (simp add: deepinfra_resolved deepinfra_loop_yields)

lemma or_empty_cases:
  "or_empty x = (case x of Val t \<Rightarrow> t | _ \<Rightarrow> [])"
  by (simp add: or_empty_def split: js.splits)

lemma chunk_content_chunk_with: "chunk_content (chunk_with c) = c"
  by (simp add: chunk_content_def chunk_with_def at0_def chain_def)

lemma chunk_content_no_choices: "chunk_content (Chunk []) = Undefined"
  by (simp add: chunk_content_def at0_def chain_def)

subsection \<open>The token stream normalizer\<close>

text \<open>
  C1, as stated: for chunks with contents ["Hello", "", " world", undefined] the
  normalizer emits exactly ["Hello", " world"]. The loop yields a fragment for every
  chunk, so the result has four fragments, not these two.
\<close>

theorem normalizer_skips_empty_counterexample:
  "yielded (createDeepSeekCompletion
      (stub_provider (Inr ([chunk_with (Val ''Hello''), chunk_with (Val ''''),
                            chunk_with (Val '' world''), chunk_with Undefined], Ended)))
      ''You are helpful.'' [] None None :: unit run)
   \<noteq> [''Hello'', '' world'']"
  by (simp add: deepseek_yielded stub_provider_def chunk_content_chunk_with or_empty_def)

text \<open>
  C1, amended: for every upstream chunk sequence both adapters emit one fragment for
  every chunk, in order: the delta content when it is present, and the empty string when
  it is absent (an empty content is emitted as it is, the empty string); no chunk is
  skipped. For contents ["Hello", "", " world", undefined] this is
  ["Hello", "", " world", ""].
\<close>

theorem normalizer_one_fragment_per_chunk:
  assumes "deepseekClient (createDeepSeekCompletion_request sp ms p m) = Inr (cs, fin)"
    and "deepinfraClient (createDeepInfraCompletion_request sp' ms' p' m') = Inr (cs', fin')"
  shows "yielded (createDeepSeekCompletion deepseekClient sp ms p m) =
           map (\<lambda>c. case chunk_content c of Val t \<Rightarrow> t | _ \<Rightarrow> []) cs
       \<and> yielded (createDeepInfraCompletion deepinfraClient sp' ms' p' m') =
           map (\<lambda>c. case chunk_content c of Val t \<Rightarrow> t | _ \<Rightarrow> []) cs'
       \<and> map (\<lambda>c. case chunk_content c of Val t \<Rightarrow> t | _ \<Rightarrow> [])
           [chunk_with (Val ''Hello''), chunk_with (Val ''''), chunk_with (Val '' world''),
            chunk_with Undefined]
           = [''Hello'', '''', '' world'', '''']"
  using assms
  by (simp add: deepseek_yielded deepinfra_yielded or_empty_cases chunk_content_chunk_with)

theorem normalizer_one_fragment_per_chunk_witness:
  "yielded (createDeepSeekCompletion
      (stub_provider (Inr ([chunk_with (Val ''Hello''), chunk_with (Val ''''),
                            chunk_with (Val '' world''), chunk_with Undefined], Ended)))
      ''You are helpful.'' [] None None :: unit run)
     = [''Hello'', '''', '' world'', '''']
   \<and> yielded (createDeepInfraCompletion
      (stub_provider (Inr ([chunk_with (Val ''Hello''), chunk_with Null, Chunk []], Errored ())))
      ''You are helpful.'' [] None None :: unit run)
     = [''Hello'', '''', '''']"
  using normalizer_one_fragment_per_chunk
    [of "stub_provider (Inr ([chunk_with (Val ''Hello''), chunk_with (Val ''''),
                              chunk_with (Val '' world''), chunk_with Undefined], Ended))"
        "''You are helpful.''" "[]" None None
        "[chunk_with (Val ''Hello''), chunk_with (Val ''''), chunk_with (Val '' world''),
          chunk_with Undefined]" "Ended :: unit ending"
        "stub_provider (Inr ([chunk_with (Val ''Hello''), chunk_with Null, Chunk []], Errored ()))"
        "''You are helpful.''" "[]" None None
        "[chunk_with (Val ''Hello''), chunk_with Null, Chunk []]" "Errored ()"]
  by (simp add: stub_provider_def chunk_content_chunk_with chunk_content_no_choices)

text \<open>
  C6: each upstream chunk yields at most one fragment (in fact exactly one), the i-th
  fragment comes from the i-th chunk alone, so nothing is coalesced and the order is the
  upstream's; and nothing is buffered: when only the first n chunks have arrived, the
  first n fragments have been yielded.
\<close>

theorem normalizer_order_no_buffering:
  assumes "deepseekClient (createDeepSeekCompletion_request sp ms p m) = Inr (cs, fin :: 'e ending)"
    and "deepseekClient' (createDeepSeekCompletion_request sp ms p m) =
           Inr (take n cs, Stalled :: 'e ending)"
  shows "length (yielded (createDeepSeekCompletion deepseekClient sp ms p m)) = length cs
       \<and> (\<forall>i < length cs.
             yielded (createDeepSeekCompletion deepseekClient sp ms p m) ! i =
               or_empty (chunk_content (cs ! i)))
       \<and> yielded (createDeepSeekCompletion deepseekClient' sp ms p m) =
             take n (yielded (createDeepSeekCompletion deepseekClient sp ms p m))"
  using assms
  by (simp add: deepseek_yielded take_map)

theorem normalizer_order_no_buffering_witness:
  "yielded (createDeepSeekCompletion
      (stub_provider (Inr ([chunk_with (Val ''Hel''), chunk_with (Val ''lo'')], Ended)))
      ''You are helpful.'' [\<lparr>role = ''user'', content = ''Hi''\<rparr>] None None :: unit run) ! 1
     = ''lo''
   \<and> yielded (createDeepSeekCompletion
      (stub_provider (Inr ([chunk_with (Val ''Hel'')], Stalled)))
      ''You are helpful.'' [\<lparr>role = ''user'', content = ''Hi''\<rparr>] None None :: unit run)
     = take 1 (yielded (createDeepSeekCompletion
      (stub_provider (Inr ([chunk_with (Val ''Hel''), chunk_with (Val ''lo'')], Ended)))
      ''You are helpful.'' [\<lparr>role = ''user'', content = ''Hi''\<rparr>] None None :: unit run))"
  using normalizer_order_no_buffering
    [of "stub_provider (Inr ([chunk_with (Val ''Hel''), chunk_with (Val ''lo'')], Ended))"
        "''You are helpful.''" "[\<lparr>role = ''user'', content = ''Hi''\<rparr>]" None None
        "[chunk_with (Val ''Hel''), chunk_with (Val ''lo'')]" "Ended :: unit ending"
        "stub_provider (Inr ([chunk_with (Val ''Hel'')], Stalled))" 1]
  by (simp add: stub_provider_def chunk_content_chunk_with or_empty_def All_less_Suc)

subsection \<open>The request sent upstream\<close>

text \<open>
  C2, as stated: every field the caller leaves out is resolved to the provider default.
  A caller that supplies only \<open>top_p\<close> gets a request with no \<open>max_tokens\<close> at all, where
  the field-by-field resolution of the specification gives the default 512.
\<close>

theorem params_field_defaults_counterexample:
  "max_tokens (createDeepSeekCompletion_request ''You are helpful.'' []
       (Some \<lparr>top_p = Some 0.5, max_tokens = None, stop = None, temperature = None\<rparr>) None)
   \<noteq> max_tokens (spec_resolve
       (Some \<lparr>top_p = Some 0.5, max_tokens = None, stop = None, temperature = None\<rparr>)
       DEFAULT_PARAMS)"
  by (simp add: createDeepSeekCompletion_request_def spec_resolve_def DEFAULT_PARAMS_def)

text \<open>
  C2, amended: when the caller supplies a Completion Parameters value, each of top_p,
  max_tokens, stop and temperature sent upstream is the caller's own field (its value
  when present, and absent when the caller left it out: no default is filled in); when
  the caller supplies no value at all, each of the four is the provider default. No
  field depends on another.
\<close>

theorem params_sent_as_given:
  "top_p (sent (createDeepSeekCompletion deepseekClient sp ms (Some p) m)) = top_p p
 \<and> max_tokens (sent (createDeepSeekCompletion deepseekClient sp ms (Some p) m)) = max_tokens p
 \<and> stop (sent (createDeepSeekCompletion deepseekClient sp ms (Some p) m)) = stop p
 \<and> temperature (sent (createDeepSeekCompletion deepseekClient sp ms (Some p) m)) = temperature p
 \<and> top_p (sent (createDeepInfraCompletion deepinfraClient sp ms (Some p) m)) = top_p p
 \<and> max_tokens (sent (createDeepInfraCompletion deepinfraClient sp ms (Some p) m)) = max_tokens p
 \<and> stop (sent (createDeepInfraCompletion deepinfraClient sp ms (Some p) m)) = stop p
 \<and> temperature (sent (createDeepInfraCompletion deepinfraClient sp ms (Some p) m)) = temperature p
 \<and> completion_params.truncate (sent (createDeepSeekCompletion deepseekClient sp ms None m)) =
       DEFAULT_PARAMS
 \<and> completion_params.truncate (sent (createDeepInfraCompletion deepinfraClient sp ms None m)) =
       DEFAULT_PARAMS"
  by (simp add: deepseek_sent deepinfra_sent createDeepSeekCompletion_request_def
      createDeepInfraCompletion_request_def completion_params.truncate_def DEFAULT_PARAMS_def)

text \<open>
  C8: with no Completion Parameters from the caller, both adapters send top_p = 1,
  max_tokens = 512, stop = "\n" (one newline character) and temperature = 0.7.
\<close>

theorem default_params_sent:
  "top_p (sent (createDeepSeekCompletion deepseekClient sp ms None m)) = Some 1
 \<and> max_tokens (sent (createDeepSeekCompletion deepseekClient sp ms None m)) = Some 512
 \<and> stop (sent (createDeepSeekCompletion deepseekClient sp ms None m)) =
       Some (StopString [CHR 0x0A])
 \<and> temperature (sent (createDeepSeekCompletion deepseekClient sp ms None m)) = Some 0.7
 \<and> top_p (sent (createDeepInfraCompletion deepinfraClient sp ms None m)) = Some 1
 \<and> max_tokens (sent (createDeepInfraCompletion deepinfraClient sp ms None m)) = Some 512
 \<and> stop (sent (createDeepInfraCompletion deepinfraClient sp ms None m)) =
       Some (StopString [CHR 0x0A])
 \<and> temperature (sent (createDeepInfraCompletion deepinfraClient sp ms None m)) = Some 0.7"
  by (simp add: deepseek_sent deepinfra_sent createDeepSeekCompletion_request_def
      createDeepInfraCompletion_request_def DEFAULT_PARAMS_def)

text \<open>
  C5: whatever the conversation contains, the message sequence either adapter sends
  upstream is the system entry with the system prompt, then the conversation's entries
  in their order.
\<close>

theorem system_prompt_prepended:
  "messages (sent (createDeepSeekCompletion deepseekClient s c p m)) =
     \<lparr>role = ''system'', content = s\<rparr> # c
 \<and> messages (sent (createDeepInfraCompletion deepinfraClient s c p m)) =
     \<lparr>role = ''system'', content = s\<rparr> # c"
  by (simp add: deepseek_sent deepinfra_sent createDeepSeekCompletion_request_def
      createDeepInfraCompletion_request_def Let_def)

subsection \<open>Failure to establish the stream, and the two adapters compared\<close>

text \<open>
  C7, as stated: when the transport cannot establish the stream, the operation fails
  with ProviderUnavailable. With a connection refused, the operation fails with the
  transport's own failure, not with the ProviderUnavailable classification.
\<close>

theorem provider_unavailable_counterexample:
  "outcome (createDeepSeekCompletion (stub_provider (Inl (Raw ConnectionRefused)))
      ''You are helpful.'' [\<lparr>role = ''user'', content = ''Hi''\<rparr>] None None)
   \<noteq> Threw (Classified ProviderUnavailable)"
  by (simp add: deepseek_rejected stub_provider_def)

text \<open>
  C7, amended: when the transport cannot establish the stream, that is when \<open>create\<close>
  rejects with an error, either adapter's operation is rejected with that very error,
  unchanged and with no classification attached, before anything is yielded: the run
  throws, it does not return normally with an empty fragment sequence.
\<close>

theorem create_rejection_propagates:
  assumes "deepseekClient (createDeepSeekCompletion_request sp ms p m) = Inl e"
    and "deepinfraClient (createDeepInfraCompletion_request sp' ms' p' m') = Inl e'"
  shows "outcome (createDeepSeekCompletion deepseekClient sp ms p m) = Threw e
       \<and> outcome (createDeepSeekCompletion deepseekClient sp ms p m) \<noteq> Returned
       \<and> yielded (createDeepSeekCompletion deepseekClient sp ms p m) = []
       \<and> outcome (createDeepInfraCompletion deepinfraClient sp' ms' p' m') = Threw e'
       \<and> outcome (createDeepInfraCompletion deepinfraClient sp' ms' p' m') \<noteq> Returned
       \<and> yielded (createDeepInfraCompletion deepinfraClient sp' ms' p' m') = []"
  using assms
  by (simp add: deepseek_rejected deepinfra_rejected)

theorem create_rejection_propagates_witness:
  "outcome (createDeepSeekCompletion (stub_provider (Inl ''401 Unauthorized''))
      ''You are helpful.'' [\<lparr>role = ''user'', content = ''Hi''\<rparr>] None None)
     = Threw ''401 Unauthorized''
   \<and> outcome (createDeepInfraCompletion (stub_provider (Inl ''ECONNREFUSED''))
      ''You are helpful.'' [\<lparr>role = ''user'', content = ''Hi''\<rparr>] None None)
     = Threw ''ECONNREFUSED''"
  using create_rejection_propagates
    [of "stub_provider (Inl ''401 Unauthorized'')"
        "''You are helpful.''" "[\<lparr>role = ''user'', content = ''Hi''\<rparr>]" None None
        "''401 Unauthorized''"
        "stub_provider (Inl ''ECONNREFUSED'')"
        "''You are helpful.''" "[\<lparr>role = ''user'', content = ''Hi''\<rparr>]" None None
        "''ECONNREFUSED''"]
  by (simp add: stub_provider_def)

text \<open>
  C9: when the two clients answer the two adapters' requests alike (the same rejection,
  or the same chunk sequence with the same ending), the two adapters yield the same
  fragments and finish the same way. Their requests are equal when the caller names the
  model, and differ in nothing but the default model name when it does not.
\<close>

theorem adapters_agree:
  assumes "deepseekClient (createDeepSeekCompletion_request sp ms p m) =
           deepinfraClient (createDeepInfraCompletion_request sp ms p m)"
  shows "yielded (createDeepSeekCompletion deepseekClient sp ms p m) =
           yielded (createDeepInfraCompletion deepinfraClient sp ms p m)
       \<and> outcome (createDeepSeekCompletion deepseekClient sp ms p m) =
           outcome (createDeepInfraCompletion deepinfraClient sp ms p m)
       \<and> createDeepSeekCompletion_request sp ms p (Some name) =
           createDeepInfraCompletion_request sp ms p (Some name)
       \<and> createDeepSeekCompletion_request sp ms p None =
           (createDeepInfraCompletion_request sp ms p None)\<lparr>model := ''deepseek-chat''\<rparr>"
proof (cases "deepseekClient (createDeepSeekCompletion_request sp ms p m)")
  case (Inl e)
  with assms have "deepinfraClient (createDeepInfraCompletion_request sp ms p m) = Inl e"
    by simp
  with Inl show ?thesis
    by (simp add: deepseek_rejected deepinfra_rejected createDeepSeekCompletion_request_def
        createDeepInfraCompletion_request_def Let_def)
next
  case (Inr s)
  obtain cs fin where s: "s = (cs, fin)"
    by (cases s)
  from Inr s assms
  have ds: "deepseekClient (createDeepSeekCompletion_request sp ms p m) = Inr (cs, fin)"
    and di: "deepinfraClient (createDeepInfraCompletion_request sp ms p m) = Inr (cs, fin)"
    by simp_all
  from ds have y1: "yielded (createDeepSeekCompletion deepseekClient sp ms p m) =
      map (\<lambda>c. or_empty (chunk_content c)) cs"
    and o1: "outcome (createDeepSeekCompletion deepseekClient sp ms p m) =
      snd (createDeepSeekCompletion_loop cs fin)"
    by (simp_all add: deepseek_resolved deepseek_loop_yields)
  from di have y2: "yielded (createDeepInfraCompletion deepinfraClient sp ms p m) =
      map (\<lambda>c. or_empty (chunk_content c)) cs"
    and o2: "outcome (createDeepInfraCompletion deepinfraClient sp ms p m) =
      snd (createDeepInfraCompletion_loop cs fin)"
    by (simp_all add: deepinfra_resolved deepinfra_loop_yields)
  show ?thesis
    by (simp add: y1 y2 o1 o2 deepseek_loop_outcome deepinfra_loop_outcome
        createDeepSeekCompletion_request_def createDeepInfraCompletion_request_def Let_def)
qed

theorem adapters_agree_witness:
  "yielded (createDeepSeekCompletion
      (stub_provider (Inr ([chunk_with (Val ''Hel''), chunk_with Null, chunk_with (Val ''lo'')],
                           Errored ''socket hang up'')))
      ''You are helpful.'' [\<lparr>role = ''user'', content = ''Hi''\<rparr>] None None)
   = yielded (createDeepInfraCompletion
      (stub_provider (Inr ([chunk_with (Val ''Hel''), chunk_with Null, chunk_with (Val ''lo'')],
                           Errored ''socket hang up'')))
      ''You are helpful.'' [\<lparr>role = ''user'', content = ''Hi''\<rparr>] None None)
   \<and> outcome (createDeepSeekCompletion
      (stub_provider (Inr ([chunk_with (Val ''Hel''), chunk_with Null, chunk_with (Val ''lo'')],
                           Errored ''socket hang up'')))
      ''You are helpful.'' [\<lparr>role = ''user'', content = ''Hi''\<rparr>] None None)
   = outcome (createDeepInfraCompletion
      (stub_provider (Inr ([chunk_with (Val ''Hel''), chunk_with Null, chunk_with (Val ''lo'')],
                           Errored ''socket hang up'')))
      ''You are helpful.'' [\<lparr>role = ''user'', content = ''Hi''\<rparr>] None None)"
  using adapters_agree
    [of "stub_provider (Inr ([chunk_with (Val ''Hel''), chunk_with Null, chunk_with (Val ''lo'')],
                             Errored ''socket hang up''))"
        "''You are helpful.''" "[\<lparr>role = ''user'', content = ''Hi''\<rparr>]" None None
        "stub_provider (Inr ([chunk_with (Val ''Hel''), chunk_with Null, chunk_with (Val ''lo'')],
                             Errored ''socket hang up''))"]
  by (simp add: stub_provider_def)

subsection \<open>The connection handler\<close>

text \<open>
  C10: for a \<open>hello\<close> event with the string text, the handler does one thing: it calls
  the supplied callback once, with "hello " followed by text; that response is all the
  client receives for the event.
\<close>

theorem hello_callback_once:
  "listeners socket_id (Inbound ''hello'' text) = [Callback (''hello '' @ text)]
 \<and> to_client (listeners socket_id (Inbound ''hello'' text)) = [''hello '' @ text]
 \<and> to_client (on_connection socket_id [Inbound ''hello'' text]) = [''hello '' @ text]"
  by (simp add: on_connection_def)

text \<open>
  C4, as stated: after a completion request the client receives exactly one terminal
  event, never silence. A client that issues a completion request receives no event at
  all.
\<close>

theorem terminal_event_counterexample:
  "to_client (on_connection ''c1'' [Inbound ''request completion'' ''Hi'']) = []"
  by (simp add: on_connection_def)

text \<open>
  C4, amended: the only event a connected client is answered is \<open>hello\<close>. For an event
  of any other name, a completion request included, the client receives no fragment
  event and no terminal event: nothing at all.
\<close>

theorem only_hello_is_answered:
  assumes "name \<noteq> ''hello''"
  shows "to_client (listeners socket_id (Inbound name arg)) = []
       \<and> to_client (on_connection socket_id [Inbound name arg]) = []"
  using assms
  by (simp add: on_connection_def)

theorem only_hello_is_answered_witness:
  "''request completion'' \<noteq> ''hello''
 \<and> to_client (listeners ''c1'' (Inbound ''request completion'' ''Hi'')) = []"
  using only_hello_is_answered [of "''request completion''" "''c1''" "''Hi''"]
  by simp

end
